theory Spec2Isabelle
  imports Main "HOL-Library.Sublist"
begin

section \<open>JavaScript strings\<close>

text \<open>
  A JavaScript string is modelled as a \<^typ>\<open>string\<close>, one \<^typ>\<open>char\<close> per code unit,
  for strings whose code units are all below 256 (the Latin-1 range, which contains the
  ASCII text that \<^verbatim>\<open>ldd\<close>, \<^verbatim>\<open>ldconfig\<close> and \<^verbatim>\<open>PrintDeps.exe\<close> print). The
  built-in methods the validator calls are written out as recursive functions.
\<close>

text \<open>\<^verbatim>\<open>String.prototype.startsWith\<close>: \<open>js_startsWith s p\<close> is \<^verbatim>\<open>s.startsWith(p)\<close>.\<close>

fun js_startsWith :: "string \<Rightarrow> string \<Rightarrow> bool" where
  "js_startsWith s [] = True"
| "js_startsWith [] (p # ps) = False"
| "js_startsWith (c # cs) (p # ps) = (c = p \<and> js_startsWith cs ps)"

text \<open>\<^verbatim>\<open>String.prototype.endsWith\<close>: \<open>js_endsWith s t\<close> is \<^verbatim>\<open>s.endsWith(t)\<close>.\<close>

definition js_endsWith :: "string \<Rightarrow> string \<Rightarrow> bool" where
  "js_endsWith s t = js_startsWith (rev s) (rev t)"

text \<open>\<^verbatim>\<open>String.prototype.includes\<close>: a search for \<open>t\<close> at every position of \<open>s\<close>.\<close>

fun js_includes :: "string \<Rightarrow> string \<Rightarrow> bool" where
  "js_includes [] t = (t = [])"
| "js_includes (c # cs) t = (js_startsWith (c # cs) t \<or> js_includes cs t)"

text \<open>
  White space and line terminators of ECMAScript below code unit 256: TAB, LF, VT, FF, CR,
  SPACE and NO-BREAK SPACE. \<^verbatim>\<open>String.prototype.trim\<close> strips them from both ends.
\<close>

definition isWhiteSpace :: "char \<Rightarrow> bool" where
  "isWhiteSpace c = (of_char c \<in> {9, 10, 11, 12, 13, 32, 160 :: nat})"

definition js_trim :: "string \<Rightarrow> string" where
  "js_trim s = rev (dropWhile isWhiteSpace (rev (dropWhile isWhiteSpace s)))"

text \<open>
  \<^verbatim>\<open>String.prototype.toLowerCase\<close> below code unit 256: the letters \<open>A\<close> to \<open>Z\<close> and
  \<open>0xC0\<close> to \<open>0xDE\<close> (without the multiplication sign \<open>0xD7\<close>) move up by 32, which sets
  bit 5 of the code unit; every other code unit stays.
\<close>

definition isUpperCase :: "char \<Rightarrow> bool" where
  "isUpperCase c = (let n = (of_char c :: nat) in
     (65 \<le> n \<and> n \<le> 90) \<or> (192 \<le> n \<and> n \<le> 222 \<and> n \<noteq> 215))"

definition lowerChar :: "char \<Rightarrow> char" where
  "lowerChar c = (if isUpperCase c
     then (case c of Char b0 b1 b2 b3 b4 b5 b6 b7 \<Rightarrow> Char b0 b1 b2 b3 b4 True b6 b7)
     else c)"

definition js_toLowerCase :: "string \<Rightarrow> string" where
  "js_toLowerCase s = map lowerChar s"

text \<open>
  \<^verbatim>\<open>String.prototype.split\<close> with a string separator. \<open>split_from sep acc s\<close> scans
  \<open>s\<close> with the current piece \<open>acc\<close> (reversed); a match of the separator closes the
  piece and the scan goes on behind the match. An empty separator splits into code units.
\<close>

function split_from :: "string \<Rightarrow> string \<Rightarrow> string \<Rightarrow> string list" where
  "split_from sep acc [] = [rev acc]"
| "split_from sep acc (c # cs) =
     (if sep \<noteq> [] \<and> js_startsWith (c # cs) sep
      then rev acc # split_from sep [] (drop (length sep) (c # cs))
      else split_from sep (c # acc) cs)"
  by pat_completeness auto
termination
  by (relation "measure (\<lambda>(sep, acc, s). length s)") (auto simp: neq_Nil_conv)

definition js_split :: "string \<Rightarrow> string \<Rightarrow> string list" where
  "js_split s sep = (if sep = [] then map (\<lambda>c. [c]) s else split_from sep [] s)"

text \<open>\<^verbatim>\<open>Array.prototype.join\<close> on an array of strings.\<close>

fun js_join :: "string list \<Rightarrow> string \<Rightarrow> string" where
  "js_join [] sep = []"
| "js_join [x] sep = x"
| "js_join (x # y # ys) sep = x @ sep @ js_join (y # ys) sep"

section \<open>The host: operating system, file system, child processes\<close>

text \<open>
  Everything the validator reads from outside is a field of the record \<open>host\<close>: the
  \<^verbatim>\<open>os\<close> and \<^verbatim>\<open>process\<close> values, the \<^verbatim>\<open>fs\<close> and \<^verbatim>\<open>path\<close> functions of Node.js, and the
  helpers imported from \<^verbatim>\<open>./utils\<close>, \<^verbatim>\<open>./registry\<close> and \<^verbatim>\<open>./nativeDeps\<close>, whose
  code is not part of the validator's file. What the validator does to the outside is a
  list of events: lines written to the console and child processes spawned.
\<close>

datatype js_error = Error string | TypeError | HostError string

datatype DependencyGroup = chromium | firefox | webkit | tools

record spawn_options =
  cwd :: "string option"
  env_LD_LIBRARY_PATH :: "string option"
  stdio :: "string option"

record spawn_result =
  stdout :: string
  code :: "int option"
  error :: "string option"

datatype event =
  ConsoleLog string
| ConsoleWarn string
| Spawn string "string list" spawn_options

record deps_info =
  group_libraries :: "DependencyGroup \<Rightarrow> string list"
  lib2package :: "string \<rightharpoonup> string"

record host =
  os_platform :: string
  os_arch :: string
  os_release :: string
  process_env_LD_LIBRARY_PATH :: "string option"
  process_getuid :: nat
  module_dirname :: string
  hostPlatform :: string
  deps :: "string \<rightharpoonup> deps_info"
  spawnAsync :: "string \<Rightarrow> string list \<Rightarrow> spawn_options \<Rightarrow> spawn_result"
  fs_readdir :: "string \<Rightarrow> js_error + string list"
  fs_stat_isFile :: "string \<Rightarrow> js_error + bool"
  fs_access_X_OK :: "string \<Rightarrow> bool"
  path_resolve :: "string \<Rightarrow> string \<Rightarrow> string"
  path_basename :: "string \<Rightarrow> string"
  path_dirname :: "string \<Rightarrow> string"
  path_join :: "string list \<Rightarrow> string"
  wrapInASCIIBox :: "string \<Rightarrow> nat \<Rightarrow> string"
  buildPlaywrightCLICommand :: "string \<Rightarrow> string \<Rightarrow> string"

text \<open>
  An asynchronous function returns the events it caused, in order, and either the error
  its promise is rejected with (\<open>Inl\<close>) or the value it is resolved with (\<open>Inr\<close>).
\<close>

type_synonym 'a eff = "event list \<times> (js_error + 'a)"

definition bind_eff :: "'a eff \<Rightarrow> ('a \<Rightarrow> 'b eff) \<Rightarrow> 'b eff" where
  "bind_eff m f = (case m of
       (t, Inl e) \<Rightarrow> (t, Inl e)
     | (t, Inr x) \<Rightarrow> (case f x of (t', r) \<Rightarrow> (t @ t', r)))"

text \<open>A callback that may throw, mapped over an array: the first throw ends the map.\<close>

fun map_result :: "('a \<Rightarrow> js_error + 'b) \<Rightarrow> 'a list \<Rightarrow> js_error + 'b list" where
  "map_result f [] = Inr []"
| "map_result f (x # xs) = (case f x of
       Inl e \<Rightarrow> Inl e
     | Inr y \<Rightarrow> (case map_result f xs of Inl e \<Rightarrow> Inl e | Inr ys \<Rightarrow> Inr (y # ys)))"

text \<open>Truthiness of a string that may be \<^verbatim>\<open>undefined\<close>: defined and not empty.\<close>

definition truthy :: "string option \<Rightarrow> bool" where
  "truthy v = (case v of None \<Rightarrow> False | Some s \<Rightarrow> s \<noteq> [])"

section \<open>Dependency Prober\<close>

text \<open>
  \<^verbatim>\<open>missingFileDependenciesWindows\<close>: runs the bundled \<^verbatim>\<open>PrintDeps.exe\<close> on the file.
  \<^verbatim>\<open>line.split('=>')[0]\<close> of an empty array would be \<^verbatim>\<open>undefined\<close>, and calling
  \<^verbatim>\<open>trim\<close> on it throws a \<^verbatim>\<open>TypeError\<close>.
\<close>

definition missingFileDependenciesWindows :: "host \<Rightarrow> string \<Rightarrow> string list eff" where
  "missingFileDependenciesWindows h filePath =
    (let executable = path_join h [module_dirname h, ''..'', ''..'', ''bin'', ''PrintDeps.exe''];
         dirname = path_dirname h filePath;
         options = \<lparr>cwd = Some dirname,
                    env_LD_LIBRARY_PATH = Some
                      (if truthy (process_env_LD_LIBRARY_PATH h)
                       then the (process_env_LD_LIBRARY_PATH h) @ '':'' @ dirname
                       else dirname),
                    stdio = None\<rparr>;
         r = spawnAsync h executable [filePath] options
     in ([Spawn executable [filePath] options],
         if code r \<noteq> Some 0 then Inr []
         else map_result
                (\<lambda>line. case js_split line ''=>'' of
                     [] \<Rightarrow> Inl TypeError
                   | name # _ \<Rightarrow> Inr (js_toLowerCase (js_trim name)))
                (filter (\<lambda>line. js_endsWith line ''not found'' \<and> js_includes line ''=>'')
                   (map js_trim (js_split (stdout r) ''\<newline>'')))))"

text \<open>\<^verbatim>\<open>missingFileDependencies\<close>: runs \<^verbatim>\<open>ldd\<close> on the file.\<close>

definition missingFileDependencies :: "host \<Rightarrow> string \<Rightarrow> string list \<Rightarrow> string list eff" where
  "missingFileDependencies h filePath extraLDPaths =
    (let dirname = path_dirname h filePath;
         joined = js_join extraLDPaths '':'';
         LD_LIBRARY_PATH =
           (if truthy (process_env_LD_LIBRARY_PATH h)
            then the (process_env_LD_LIBRARY_PATH h) @ '':'' @ joined
            else joined);
         options = \<lparr>cwd = Some dirname, env_LD_LIBRARY_PATH = Some LD_LIBRARY_PATH,
                    stdio = None\<rparr>;
         r = spawnAsync h ''ldd'' [filePath] options
     in ([Spawn ''ldd'' [filePath] options],
         if code r \<noteq> Some 0 then Inr []
         else map_result
                (\<lambda>line. case js_split line ''=>'' of
                     [] \<Rightarrow> Inl TypeError
                   | name # _ \<Rightarrow> Inr (js_trim name))
                (filter (\<lambda>line. js_endsWith line ''not found'' \<and> js_includes line ''=>'')
                   (map js_trim (js_split (stdout r) ''\<newline>'')))))"

section \<open>Dynamic-Load Checker\<close>

text \<open>\<^verbatim>\<open>missingDLOPENLibraries\<close>: one \<^verbatim>\<open>/sbin/ldconfig -p\<close> for a non-empty list.\<close>

definition missingDLOPENLibraries :: "host \<Rightarrow> string list \<Rightarrow> string list eff" where
  "missingDLOPENLibraries h libraries =
    (if libraries = [] then ([], Inr [])
     else
       let options = \<lparr>cwd = None, env_LD_LIBRARY_PATH = None, stdio = None\<rparr>;
           r = spawnAsync h ''/sbin/ldconfig'' [''-p''] options
       in ([Spawn ''/sbin/ldconfig'' [''-p''] options],
           if code r \<noteq> Some 0 \<or> error r \<noteq> None then Inr []
           else Inr (filter
                  (\<lambda>library. \<not> js_includes (js_toLowerCase (stdout r)) (js_toLowerCase library))
                  libraries)))"

section \<open>Binary Candidate Scanner\<close>

definition isSharedLib :: "host \<Rightarrow> string \<Rightarrow> bool" where
  "isSharedLib h basename =
    (if os_platform h = ''linux''
       then js_endsWith basename ''.so'' \<or> js_includes basename ''.so.''
     else if os_platform h = ''win32''
       then js_endsWith basename ''.dll''
     else False)"

text \<open>
  \<^verbatim>\<open>checkExecutable\<close>: \<^verbatim>\<open>fs.promises.access(filePath, X_OK)\<close> resolved is \<open>True\<close>,
  rejected is \<open>False\<close>; the host field says which.
\<close>

definition checkExecutable :: "host \<Rightarrow> string \<Rightarrow> bool" where
  "checkExecutable h filePath = fs_access_X_OK h filePath"

text \<open>
  \<^verbatim>\<open>.filter(Boolean)\<close> on an array of strings and \<^verbatim>\<open>false\<close> (here \<open>None\<close>): it drops
  \<^verbatim>\<open>false\<close> and the empty string.
\<close>

definition filter_Boolean :: "string option list \<Rightarrow> string list" where
  "filter_Boolean xs = map the (filter truthy xs)"

text \<open>
  \<^verbatim>\<open>executablesOrSharedLibraries\<close>. A rejected \<^verbatim>\<open>readdir\<close> or \<^verbatim>\<open>stat\<close> rejects the
  whole scan. Which rejection a \<^verbatim>\<open>Promise.all\<close> reports when several \<^verbatim>\<open>stat\<close> calls
  fail depends on timing; the model reports the first one in array order.
\<close>

definition executablesOrSharedLibraries :: "host \<Rightarrow> string \<Rightarrow> js_error + string list" where
  "executablesOrSharedLibraries h directoryPath =
    (case fs_readdir h directoryPath of
       Inl e \<Rightarrow> Inl e
     | Inr files \<Rightarrow>
        (let allPaths = map (path_resolve h directoryPath) files in
         case map_result (fs_stat_isFile h) allPaths of
           Inl e \<Rightarrow> Inl e
         | Inr allStats \<Rightarrow>
            (let filePaths = map fst (filter snd (zip allPaths allStats));
                 executablersOrLibraries = filter_Boolean (map
                   (\<lambda>filePath.
                      let basename = js_toLowerCase (path_basename h filePath)
                      in if isSharedLib h basename then Some filePath
                         else if checkExecutable h filePath then Some filePath
                         else None)
                   filePaths)
             in Inr executablersOrLibraries)))"

section \<open>Aggregator\<close>

text \<open>
  A JavaScript \<^verbatim>\<open>Set\<close> of strings is the list of its elements in insertion order,
  without duplicates: the order is what \<^verbatim>\<open>[...set]\<close> and \<^verbatim>\<open>for ... of\<close> see.
\<close>

definition set_add :: "string list \<Rightarrow> string \<Rightarrow> string list" where
  "set_add s x = (if x \<in> set s then s else s @ [x])"


text \<open>
  \<^verbatim>\<open>Promise.all\<close> over async calls that were all started, in array order: every call's
  events happen, and the result is the array of values or the first rejection.
\<close>

definition all_eff :: "'a eff list \<Rightarrow> 'a list eff" where
  "all_eff ms = (concat (map fst ms), map_result (\<lambda>r. r) (map snd ms))"

text \<open>
  Lines 223 to 234 of \<^verbatim>\<open>validateDependenciesLinux\<close>: scan the directories one after the
  other, probe every candidate, add every name to the set, then add what the
  Dynamic-Load Checker returns. The value is the set as it stands before the
  \<^verbatim>\<open>missingDeps.size\<close> test.
\<close>

definition aggregateLinux :: "host \<Rightarrow> string list \<Rightarrow> string list \<Rightarrow> string list eff" where
  "aggregateLinux h linuxLddDirectories dlOpenLibraries =
    (let directoryPaths = linuxLddDirectories in
     case map_result (executablesOrSharedLibraries h) directoryPaths of
       Inl e \<Rightarrow> ([], Inl e)
     | Inr found \<Rightarrow>
        (let lddPaths = concat found in
         bind_eff
           (all_eff (map (\<lambda>lddPath. missingFileDependencies h lddPath directoryPaths) lddPaths))
           (\<lambda>allMissingDeps.
              let missingDeps = foldl set_add [] (concat allMissingDeps) in
              bind_eff (missingDLOPENLibraries h dlOpenLibraries)
                (\<lambda>dlopenMissing. ([], Inr (foldl set_add missingDeps dlopenMissing))))))"

text \<open>Lines 162 to 171 of \<^verbatim>\<open>validateDependenciesWindows\<close>.\<close>

definition aggregateWindows :: "host \<Rightarrow> string list \<Rightarrow> string list eff" where
  "aggregateWindows h windowsExeAndDllDirectories =
    (let directoryPaths = windowsExeAndDllDirectories in
     case map_result (executablesOrSharedLibraries h) directoryPaths of
       Inl e \<Rightarrow> ([], Inl e)
     | Inr found \<Rightarrow>
        (let lddPaths = concat found in
         bind_eff
           (all_eff (map (\<lambda>lddPath. missingFileDependenciesWindows h lddPath) lddPaths))
           (\<lambda>allMissingDeps. ([], Inr (foldl set_add [] (concat allMissingDeps))))))"

section \<open>Classifier and Reporter, Linux\<close>

definition MANUAL_LIBRARY_TO_PACKAGE_NAME_UBUNTU :: "string \<rightharpoonup> string" where
  "MANUAL_LIBRARY_TO_PACKAGE_NAME_UBUNTU = [''libx264.so'' \<mapsto> ''gstreamer1.0-libav'']"

text \<open>
  The object spread \<^verbatim>\<open>{...(deps[hostPlatform]?.lib2package || {}), ...MANUAL}\<close>: first
  the catalog's mapping for the host platform, or nothing when the catalog has no entry
  for it, then the manual table. An object used as a dictionary is the map of its own
  properties.
\<close>

definition catalogLib2package :: "host \<Rightarrow> (string \<rightharpoonup> string)" where
  "catalogLib2package h =
     (case deps h (hostPlatform h) of None \<Rightarrow> Map.empty | Some info \<Rightarrow> lib2package info)"

definition libraryToPackageNameMapping :: "host \<Rightarrow> (string \<rightharpoonup> string)" where
  "libraryToPackageNameMapping h =
     catalogLib2package h ++ MANUAL_LIBRARY_TO_PACKAGE_NAME_UBUNTU"






section \<open>Classifier and Reporter, Windows\<close>

text \<open>
  \<^verbatim>\<open>parseInt(token, 10)\<close>: leading white space is skipped, a sign is read, then the
  longest run of decimal digits; without a digit the result is \<^verbatim>\<open>NaN\<close>, here \<open>None\<close>.
  The result is compared with 6 and 1 only, and rounding to a double changes none of
  these comparisons, so the value is kept as an exact integer.
\<close>

definition isDigit :: "char \<Rightarrow> bool" where
  "isDigit c = (48 \<le> (of_char c :: nat) \<and> (of_char c :: nat) \<le> 57)"

definition digitsValue :: "string \<Rightarrow> int" where
  "digitsValue z = foldl (\<lambda>acc c. 10 * acc + (int (of_char c) - 48)) 0 z"

definition parseInt10 :: "string \<Rightarrow> int option" where
  "parseInt10 token =
    (let t = dropWhile isWhiteSpace token;
         negative = (t \<noteq> [] \<and> hd t = CHR ''-'');
         u = (if t \<noteq> [] \<and> (hd t = CHR ''-'' \<or> hd t = CHR ''+'') then tl t else t);
         z = takeWhile isDigit u
     in if z = [] then None
        else Some (if negative then - digitsValue z else digitsValue z))"

text \<open>
  Array destructuring reads index 0 and 1; a missing element is \<^verbatim>\<open>undefined\<close>. Both
  \<^verbatim>\<open>undefined\<close> and \<^verbatim>\<open>NaN\<close> make \<^verbatim>\<open>>\<close> and \<^verbatim>\<open>===\<close> with a number false, so both
  are \<open>None\<close>.
\<close>

definition element_at :: "int option list \<Rightarrow> nat \<Rightarrow> int option" where
  "element_at xs i = (if i < length xs then xs ! i else None)"

definition js_greater :: "int option \<Rightarrow> int \<Rightarrow> bool" where
  "js_greater a n = (case a of None \<Rightarrow> False | Some x \<Rightarrow> n < x)"

definition isSupportedWindowsVersion :: "host \<Rightarrow> bool" where
  "isSupportedWindowsVersion h =
    (if os_platform h \<noteq> ''win32'' \<or> os_arch h \<noteq> ''x64'' then False
     else
       let tokens = map parseInt10 (js_split (os_release h) ''.'');
           major = element_at tokens 0;
           minor = element_at tokens 1
       in js_greater major 6 \<or> (major = Some 6 \<and> js_greater minor 1))"

text \<open>The two tests of the loop of lines 178 to 183, on one name of the missing set.\<close>

definition isCrtName :: "string \<Rightarrow> bool" where
  "isCrtName dep =
     (js_startsWith dep ''api-ms-win-crt'' \<or> dep = ''vcruntime140.dll'' \<or>
      dep = ''vcruntime140_1.dll'' \<or> dep = ''msvcp140.dll'')"

definition isMediaFoundationName :: "string \<Rightarrow> bool" where
  "isMediaFoundationName dep =
     (dep = ''mf.dll'' \<or> dep = ''mfplat.dll'' \<or> dep = ''msmpeg2vdec.dll'' \<or>
      dep = ''evr.dll'' \<or> dep = ''avrt.dll'')"

text \<open>The loop itself, with its two flags as state.\<close>

fun scanFamilies :: "string list \<Rightarrow> bool \<times> bool \<Rightarrow> bool \<times> bool" where
  "scanFamilies [] (isCrtMissing, isMediaFoundationMissing) =
     (isCrtMissing, isMediaFoundationMissing)"
| "scanFamilies (dep # rest) (isCrtMissing, isMediaFoundationMissing) =
     (if isCrtName dep then scanFamilies rest (True, isMediaFoundationMissing)
      else if isMediaFoundationName dep then scanFamilies rest (isCrtMissing, True)
      else scanFamilies rest (isCrtMissing, isMediaFoundationMissing))"

text \<open>Lines 176 to 213: the message for a non-empty missing set.\<close>

definition windowsMessage :: "string list \<Rightarrow> string" where
  "windowsMessage missingDeps =
    (let (isCrtMissing, isMediaFoundationMissing) = scanFamilies missingDeps (False, False);
         details =
           (if isCrtMissing then
              [''Some of the Universal C Runtime files cannot be found on the system. You can fix'',
               ''that by installing Microsoft Visual C++ Redistributable for Visual Studio from:'',
               ''https://support.microsoft.com/en-us/help/2977003/the-latest-supported-visual-c-downloads'',
               []]
            else []) @
           (if isMediaFoundationMissing then
              [''Some of the Media Foundation files cannot be found on the system. If you are'',
               ''on Windows Server try fixing this by running the following command in PowerShell'',
               ''as Administrator:'',
               [],
               ''    Install-WindowsFeature Server-Media-Foundation'',
               [],
               ''For Windows N editions visit:'',
               ''https://support.microsoft.com/en-us/help/3145500/media-feature-pack-list-for-windows-n-editions'',
               []]
            else []) @
           [''Full list of missing libraries:'',
            ''    '' @ js_join missingDeps ''\<newline>    '',
            []]
     in ''Host system is missing dependencies!\<newline>\<newline>'' @ js_join details ''\<newline>'')"

text \<open>Lines 173 to 219 of \<^verbatim>\<open>validateDependenciesWindows\<close>, from the size test on.\<close>

definition classifyWindows :: "host \<Rightarrow> string list \<Rightarrow> unit eff" where
  "classifyWindows h missingDeps =
    (if missingDeps = [] then ([], Inr ())
     else
       let message = windowsMessage missingDeps in
       if isSupportedWindowsVersion h then ([], Inl (Error message))
       else ([ConsoleWarn ''WARNING: running on unsupported windows version!'',
              ConsoleWarn message], Inr ()))"

definition validateDependenciesWindows :: "host \<Rightarrow> string list \<Rightarrow> unit eff" where
  "validateDependenciesWindows h windowsExeAndDllDirectories =
     bind_eff (aggregateWindows h windowsExeAndDllDirectories) (classifyWindows h)"

section \<open>Installer, Windows\<close>

definition BIN_DIRECTORY :: "host \<Rightarrow> string" where
  "BIN_DIRECTORY h = path_join h [module_dirname h, ''..'', ''..'', ''bin'']"

definition quoteProcessArgs :: "string list \<Rightarrow> string list" where
  "quoteProcessArgs args =
     map (\<lambda>arg. if js_includes arg '' '' then CHR 0x22 # arg @ [CHR 0x22] else arg) args"

definition installDependenciesWindows :: "host \<Rightarrow> DependencyGroup set \<Rightarrow> bool \<Rightarrow> unit eff" where
  "installDependenciesWindows h targets dryRun =
    (if chromium \<in> targets then
       let command = ''powershell.exe'';
           args = [''-ExecutionPolicy'', ''Bypass'', ''-File'',
                   path_join h [BIN_DIRECTORY h, ''install_media_pack.ps1'']]
       in
       if dryRun then ([ConsoleLog (command @ '' '' @ js_join (quoteProcessArgs args) '' '')], Inr ())
       else
         let options = \<lparr>cwd = Some (BIN_DIRECTORY h), env_LD_LIBRARY_PATH = None,
                        stdio = Some ''inherit''\<rparr>;
             r = spawnAsync h command args options
         in ([Spawn command args options],
             if code r \<noteq> Some 0 then Inl (Error ''Failed to install windows dependencies!'')
             else Inr ())
     else ([], Inr ()))"

section \<open>Notions of the specification\<close>

text \<open>
  A line of tool output denotes an unresolved dependency when, with the white space
  around it removed, it ends with the marker and contains the separator.
\<close>

definition spec_unresolved_line :: "string \<Rightarrow> bool" where
  "spec_unresolved_line line =
     (suffix ''not found'' (js_trim line) \<and> sublist ''=>'' (js_trim line))"

text \<open>
  The name of such a line: the text before the first separator of the trimmed line,
  trimmed. No separator starts further left than the one behind \<open>raw\<close>.
\<close>

definition spec_name_of_line :: "string \<Rightarrow> string \<Rightarrow> bool" where
  "spec_name_of_line line name =
     (\<exists>raw rest. js_trim line = raw @ ''=>'' @ rest \<and>
        (\<forall>p t. js_trim line = p @ ''=>'' @ t \<longrightarrow> length raw \<le> length p) \<and>
        name = js_trim raw)"


text \<open>
  The naming convention for shared libraries, on a file name as it is given: on Linux
  it ends with \<^verbatim>\<open>.so\<close> or contains \<^verbatim>\<open>.so.\<close>, on Windows it ends with \<^verbatim>\<open>.dll\<close>.
\<close>

definition spec_shared_library_name :: "string \<Rightarrow> string \<Rightarrow> bool" where
  "spec_shared_library_name platform name =
     ((platform = ''linux'' \<and> (suffix ''.so'' name \<or> sublist ''.so.'' name)) \<or>
      (platform = ''win32'' \<and> suffix ''.dll'' name))"

text \<open>
  How a version number is written in \<^verbatim>\<open>os.release()\<close>: in decimal, most significant
  digit first, with no sign and no padding.
\<close>

definition digitChar :: "nat \<Rightarrow> char" where
  "digitChar d = ''0123456789'' ! d"

fun decimal :: "nat \<Rightarrow> string" where
  "decimal n = (if n < 10 then [digitChar n] else decimal (n div 10) @ [digitChar (n mod 10)])"

section \<open>Example hosts\<close>

text \<open>
  A Linux machine with one browser directory. \<^verbatim>\<open>ldd\<close> finds two libraries of
  \<^verbatim>\<open>chrome\<close> missing and cannot read the other files; the linker cache lists
  \<^verbatim>\<open>libx264.so.155\<close>. The path functions are simple stand-ins for Node's.
\<close>

definition ldd_chrome_output :: string where
  "ldd_chrome_output =
     ''  linux-vdso.so.1 (0x00007ffd)\<newline>'' @
     ''  libgtk-3.so.0 => not found\<newline>'' @
     ''  libc.so.6 => /lib/x86_64-linux-gnu/libc.so.6 (0x00007f1e)\<newline>'' @
     ''  libx264.so => not found\<newline>''"

definition linuxSpawn :: "string \<Rightarrow> string list \<Rightarrow> spawn_options \<Rightarrow> spawn_result" where
  "linuxSpawn cmd args opts =
    (if cmd = ''ldd'' \<and> args = [''/opt/browser/chrome'']
       then \<lparr>stdout = ldd_chrome_output, code = Some 0, error = None\<rparr>
     else if cmd = ''ldd''
       then \<lparr>stdout = ''  not a dynamic executable'', code = Some 1, error = None\<rparr>
     else if cmd = ''/sbin/ldconfig''
       then \<lparr>stdout = ''  libx264.so.155 (libc6,x86-64) => /lib/x86_64-linux-gnu/libx264.so.155\<newline>'',
             code = Some 0, error = None\<rparr>
     else \<lparr>stdout = [], code = Some 0, error = Some ''ENOENT''\<rparr>)"

definition linuxHost :: host where
  "linuxHost = \<lparr>
     os_platform = ''linux'',
     os_arch = ''x64'',
     os_release = ''5.15.0-76-generic'',
     process_env_LD_LIBRARY_PATH = None,
     process_getuid = 1000,
     module_dirname = ''/pw/lib/utils'',
     hostPlatform = ''ubuntu20.04'',
     deps = [''ubuntu20.04'' \<mapsto>
       \<lparr>group_libraries = (\<lambda>g. []),
        lib2package = [''libgtk-3.so.0'' \<mapsto> ''libgtk-3-0'', ''libx264.so'' \<mapsto> ''libx264-155'']\<rparr>],
     spawnAsync = linuxSpawn,
     fs_readdir = (\<lambda>d. if d = ''/opt/browser''
                        then Inr [''chrome'', ''LIB.SO'', ''readme.txt'', ''locales'']
                        else Inl (HostError ''ENOENT'')),
     fs_stat_isFile = (\<lambda>p. if p = ''/opt/browser/locales'' then Inr False
                           else if p = ''/opt/broken/gone'' then Inl (HostError ''ENOENT'')
                           else Inr True),
     fs_access_X_OK = (\<lambda>p. p = ''/opt/browser/chrome''),
     path_resolve = (\<lambda>d f. d @ ''/'' @ f),
     path_basename = (\<lambda>p. rev (takeWhile (\<lambda>c. c \<noteq> CHR ''/'') (rev p))),
     path_dirname = (\<lambda>p. rev (drop 1 (dropWhile (\<lambda>c. c \<noteq> CHR ''/'') (rev p)))),
     path_join = (\<lambda>parts. js_join parts ''/''),
     wrapInASCIIBox = (\<lambda>text padding. text),
     buildPlaywrightCLICommand = (\<lambda>sdkLanguage cmd. ''npx playwright '' @ cmd)
   \<rparr>"

text \<open>The same machine with a directory one of whose entries cannot be stat-ed.\<close>

definition brokenDirHost :: host where
  "brokenDirHost = linuxHost\<lparr>fs_readdir := (\<lambda>d. Inr [''chrome'', ''gone''])\<rparr>"

text \<open>
  Two Windows machines that differ in the release only, Windows 7 and Windows 8. The
  dependency walker reports the same two DLLs missing, with CR LF line ends.
\<close>

definition printDeps_output :: string where
  "printDeps_output =
     ''    VCRUNTIME140.dll => not found'' @ [CHR 0x0D] @ ''\<newline>'' @
     ''    KERNEL32.dll => C:/Windows/System32/KERNEL32.dll'' @ [CHR 0x0D] @ ''\<newline>'' @
     ''    MF.dll => not found'' @ [CHR 0x0D] @ ''\<newline>''"

definition windows7Host :: host where
  "windows7Host = linuxHost\<lparr>
     os_platform := ''win32'',
     os_release := ''6.1.7601'',
     hostPlatform := ''win64'',
     spawnAsync := (\<lambda>cmd args opts. \<lparr>stdout = printDeps_output, code = Some 0, error = None\<rparr>),
     fs_readdir := (\<lambda>d. Inr [''chrome.exe'']),
     fs_access_X_OK := (\<lambda>p. True)\<rparr>"

definition windows8Host :: host where
  "windows8Host = windows7Host\<lparr>os_release := ''6.2.9200''\<rparr>"

section \<open>Helper facts on the string methods\<close>

lemma js_startsWith_prefix: "js_startsWith s p = prefix p s"
  by (induction s p rule: js_startsWith.induct) auto

lemma js_endsWith_suffix: "js_endsWith s t = suffix t s"
  by (simp add: js_endsWith_def js_startsWith_prefix suffix_to_prefix)

lemma js_includes_sublist: "js_includes s t = sublist t s"
  by (induction s) (auto simp: js_startsWith_prefix sublist_Cons_right)

text \<open>
  Without an occurrence of the separator the text stays in one piece; with one, the
  first piece is the text before the leftmost occurrence.
\<close>

lemma split_from_no_match: "\<not> sublist sep s \<Longrightarrow> split_from sep acc s = [rev acc @ s]"
proof (induction s arbitrary: acc)
  case Nil
  then show ?case by simp
next
  case (Cons c cs)
  from Cons.prems have np: "\<not> prefix sep (c # cs)" and ns: "\<not> sublist sep cs"
    by (auto simp: sublist_Cons_right)
  from Cons.IH [OF ns, of "c # acc"] np show ?case
    by (simp add: js_startsWith_prefix)
qed

lemma split_from_first:
  assumes "sep \<noteq> []" and "sublist sep s"
  shows "\<exists>raw rest ps. split_from sep acc s = (rev acc @ raw) # ps \<and> s = raw @ sep @ rest \<and>
           (\<forall>p t. s = p @ sep @ t \<longrightarrow> length raw \<le> length p)"
  using assms(2)
proof (induction s arbitrary: acc)
  case Nil
  with assms(1) show ?case by simp
next
  case (Cons c cs)
  show ?case
  proof (cases "prefix sep (c # cs)")
    case True
    then obtain rest where r: "c # cs = sep @ rest" by (auto simp: prefix_def)
    have "split_from sep acc (c # cs) =
            (rev acc @ []) # split_from sep [] (drop (length sep) (c # cs))"
      using True assms(1) by (simp add: js_startsWith_prefix)
    with r show ?thesis by (metis append_Nil le0 list.size(3))
  next
    case False
    with Cons.prems have sub: "sublist sep cs" by (simp add: sublist_Cons_right)
    from Cons.IH [OF sub, of "c # acc"] obtain raw rest ps where
      s: "split_from sep (c # acc) cs = (rev (c # acc) @ raw) # ps" and
      e: "cs = raw @ sep @ rest" and
      m: "\<forall>p t. cs = p @ sep @ t \<longrightarrow> length raw \<le> length p" by blast
    have 1: "split_from sep acc (c # cs) = (rev acc @ (c # raw)) # ps"
      using False s by (simp add: js_startsWith_prefix)
    have 2: "c # cs = (c # raw) @ sep @ rest" using e by simp
    have 3: "\<forall>p t. c # cs = p @ sep @ t \<longrightarrow> length (c # raw) \<le> length p"
    proof (intro allI impI)
      fix p t assume pt: "c # cs = p @ sep @ t"
      show "length (c # raw) \<le> length p"
      proof (cases p)
        case Nil
        with pt have "prefix sep (c # cs)" by (simp add: prefix_def)
        with False show ?thesis by simp
      next
        case (Cons a p')
        with pt have "cs = p' @ sep @ t" by simp
        with m have "length raw \<le> length p'" by blast
        with Cons show ?thesis by simp
      qed
    qed
    from 1 2 3 show ?thesis by blast
  qed
qed

lemma js_split_first:
  assumes "sublist ''=>'' s"
  shows "\<exists>raw rest ps. js_split s ''=>'' = raw # ps \<and> s = raw @ ''=>'' @ rest \<and>
           (\<forall>p t. s = p @ ''=>'' @ t \<longrightarrow> length raw \<le> length p)"
  using split_from_first [of "''=>''" s "[]"] assms by (simp add: js_split_def)

lemma map_result_Inr:
  "(\<And>x. x \<in> set xs \<Longrightarrow> f x = Inr (g x)) \<Longrightarrow> map_result f xs = Inr (map g xs)"
  by (induction xs) auto


section \<open>Dependency Prober: what is extracted\<close>

text \<open>The parse of the tool output, for any final step \<open>post\<close> on the name.\<close>

lemma parse_names:
  "\<exists>names. map_result
       (\<lambda>line. case js_split line ''=>'' of
            [] \<Rightarrow> Inl TypeError
          | name # _ \<Rightarrow> Inr (post (js_trim name)))
       (filter (\<lambda>line. js_endsWith line ''not found'' \<and> js_includes line ''=>'')
          (map js_trim (js_split out ''\<newline>'')))
     = Inr (map post names) \<and>
     list_all2 spec_name_of_line (filter spec_unresolved_line (js_split out ''\<newline>'')) names"
proof -
  let ?f = "\<lambda>line. case js_split line ''=>'' of [] \<Rightarrow> Inl TypeError
                   | name # _ \<Rightarrow> Inr (post (js_trim name))"
  let ?g = "\<lambda>line. js_trim (hd (js_split line ''=>''))"
  let ?L = "filter spec_unresolved_line (js_split out ''\<newline>'')"
  have lines: "filter (\<lambda>line. js_endsWith line ''not found'' \<and> js_includes line ''=>'')
                 (map js_trim (js_split out ''\<newline>'')) = map js_trim ?L"
    by (simp add: filter_map comp_def spec_unresolved_line_def [abs_def] js_endsWith_suffix
        js_includes_sublist)
  have f: "?f x = Inr (post (?g x))" if "x \<in> set (map js_trim ?L)" for x
  proof -
    from that have "sublist ''=>'' x" by (auto simp: spec_unresolved_line_def)
    from js_split_first [OF this] obtain raw ps where "js_split x ''=>'' = raw # ps" by blast
    then show ?thesis by simp
  qed
  have 1: "map_result ?f (map js_trim ?L) = Inr (map (\<lambda>x. post (?g x)) (map js_trim ?L))"
    by (rule map_result_Inr) (rule f)
  have 2: "list_all2 spec_name_of_line ?L (map (\<lambda>l. ?g (js_trim l)) ?L)"
  proof (simp add: list_all2_map2, rule list_all2_same [THEN iffD2], rule ballI)
    fix l assume "l \<in> set ?L"
    then have "sublist ''=>'' (js_trim l)" by (simp add: spec_unresolved_line_def)
    from js_split_first [OF this] obtain raw rest ps where
      "js_split (js_trim l) ''=>'' = raw # ps" "js_trim l = raw @ ''=>'' @ rest"
      "\<forall>p t. js_trim l = p @ ''=>'' @ t \<longrightarrow> length raw \<le> length p" by blast
    then show "spec_name_of_line l (js_trim (hd (js_split (js_trim l) ''=>'')))"
      unfolding spec_name_of_line_def by auto
  qed
  from 1 2 lines show ?thesis
    by (intro exI [of _ "map (\<lambda>l. ?g (js_trim l)) ?L"]) (simp add: comp_def)
qed

lemma prober_parse_linux:
  "\<exists>opts names.
      fst (missingFileDependencies h filePath extraLDPaths) = [Spawn ''ldd'' [filePath] opts] \<and>
      (code (spawnAsync h ''ldd'' [filePath] opts) = Some 0 \<longrightarrow>
         snd (missingFileDependencies h filePath extraLDPaths) = Inr names \<and>
         list_all2 spec_name_of_line
           (filter spec_unresolved_line
              (js_split (stdout (spawnAsync h ''ldd'' [filePath] opts)) ''\<newline>''))
           names)"
proof -
  let ?o = "\<lparr>cwd = Some (path_dirname h filePath),
             env_LD_LIBRARY_PATH = Some
               (if truthy (process_env_LD_LIBRARY_PATH h)
                then the (process_env_LD_LIBRARY_PATH h) @ '':'' @ js_join extraLDPaths '':''
                else js_join extraLDPaths '':''),
             stdio = None\<rparr>"
  from parse_names [of "\<lambda>x. x" "stdout (spawnAsync h ''ldd'' [filePath] ?o)"]
  obtain names where n: "map_result
       (\<lambda>line. case js_split line ''=>'' of [] \<Rightarrow> Inl TypeError | name # _ \<Rightarrow> Inr (js_trim name))
       (filter (\<lambda>line. js_endsWith line ''not found'' \<and> js_includes line ''=>'')
          (map js_trim (js_split (stdout (spawnAsync h ''ldd'' [filePath] ?o)) ''\<newline>'')))
     = Inr names"
    "list_all2 spec_name_of_line (filter spec_unresolved_line
        (js_split (stdout (spawnAsync h ''ldd'' [filePath] ?o)) ''\<newline>'')) names"
    by auto
  show ?thesis
    by (rule exI [of _ ?o], rule exI [of _ names])
       (use n in \<open>simp add: missingFileDependencies_def Let_def\<close>)
qed

lemma prober_parse_windows:
  "\<exists>exe opts names.
      fst (missingFileDependenciesWindows h filePath) = [Spawn exe [filePath] opts] \<and>
      (code (spawnAsync h exe [filePath] opts) = Some 0 \<longrightarrow>
         snd (missingFileDependenciesWindows h filePath) = Inr (map js_toLowerCase names) \<and>
         list_all2 spec_name_of_line
           (filter spec_unresolved_line
              (js_split (stdout (spawnAsync h exe [filePath] opts)) ''\<newline>''))
           names)"
proof -
  let ?e = "path_join h [module_dirname h, ''..'', ''..'', ''bin'', ''PrintDeps.exe'']"
  let ?o = "\<lparr>cwd = Some (path_dirname h filePath),
             env_LD_LIBRARY_PATH = Some
               (if truthy (process_env_LD_LIBRARY_PATH h)
                then the (process_env_LD_LIBRARY_PATH h) @ '':'' @ path_dirname h filePath
                else path_dirname h filePath),
             stdio = None\<rparr>"
  from parse_names [of js_toLowerCase "stdout (spawnAsync h ?e [filePath] ?o)"]
  obtain names where n: "map_result
       (\<lambda>line. case js_split line ''=>'' of [] \<Rightarrow> Inl TypeError
              | name # _ \<Rightarrow> Inr (js_toLowerCase (js_trim name)))
       (filter (\<lambda>line. js_endsWith line ''not found'' \<and> js_includes line ''=>'')
          (map js_trim (js_split (stdout (spawnAsync h ?e [filePath] ?o)) ''\<newline>'')))
     = Inr (map js_toLowerCase names)"
    "list_all2 spec_name_of_line (filter spec_unresolved_line
        (js_split (stdout (spawnAsync h ?e [filePath] ?o)) ''\<newline>'')) names"
    by auto
  show ?thesis
    by (rule exI [of _ ?e], rule exI [of _ ?o], rule exI [of _ names])
       (use n in \<open>simp add: missingFileDependenciesWindows_def Let_def\<close>)
qed

text \<open>Neither variant of the Prober ever rejects.\<close>

lemma parse_total:
  "\<exists>names. map_result
       (\<lambda>line. case js_split line ''=>'' of
            [] \<Rightarrow> Inl TypeError
          | name # _ \<Rightarrow> Inr (post (js_trim name)))
       (filter (\<lambda>line. js_endsWith line ''not found'' \<and> js_includes line ''=>'')
          (map js_trim (js_split out ''\<newline>'')))
     = Inr names"
  using parse_names [of post out] by blast

lemma prober_total_linux:
  "\<exists>names. snd (missingFileDependencies h filePath extraLDPaths) = Inr names"
  using parse_total [of "\<lambda>x. x"] by (simp add: missingFileDependencies_def Let_def)

lemma prober_total_windows:
  "\<exists>names. snd (missingFileDependenciesWindows h filePath) = Inr names"
  using parse_total [of js_toLowerCase] by (simp add: missingFileDependenciesWindows_def Let_def)

text \<open>
  Claim C2. Each variant of the Prober spawns its tool once on the file. When the tool
  exits with status 0, the names returned correspond one to one, in order, to the lines
  of its output (the output split at line feeds) that, trimmed, end with
  \<^verbatim>\<open>not found\<close> and contain \<^verbatim>\<open>=>\<close>; the name of a line is the text before its first
  \<^verbatim>\<open>=>\<close>, trimmed. The Linux variant returns these names as they are, the Windows
  variant returns them lower-cased.
\<close>

theorem prober_extraction:
  "(\<exists>opts names.
      fst (missingFileDependencies h filePath extraLDPaths) = [Spawn ''ldd'' [filePath] opts] \<and>
      (code (spawnAsync h ''ldd'' [filePath] opts) = Some 0 \<longrightarrow>
         snd (missingFileDependencies h filePath extraLDPaths) = Inr names \<and>
         list_all2 spec_name_of_line
           (filter spec_unresolved_line
              (js_split (stdout (spawnAsync h ''ldd'' [filePath] opts)) ''\<newline>''))
           names)) \<and>
   (\<exists>exe opts names.
      fst (missingFileDependenciesWindows h filePath) = [Spawn exe [filePath] opts] \<and>
      (code (spawnAsync h exe [filePath] opts) = Some 0 \<longrightarrow>
         snd (missingFileDependenciesWindows h filePath) = Inr (map js_toLowerCase names) \<and>
         list_all2 spec_name_of_line
           (filter spec_unresolved_line
              (js_split (stdout (spawnAsync h exe [filePath] opts)) ''\<newline>''))
           names))"
  using prober_parse_linux [of h filePath extraLDPaths] prober_parse_windows [of h filePath]
  by (rule conjI)

theorem prober_extraction_witness:
  "snd (missingFileDependencies linuxHost ''/opt/browser/chrome'' [''/opt/browser''])
     = Inr [''libgtk-3.so.0'', ''libx264.so''] \<and>
   list_all2 spec_name_of_line
     (filter spec_unresolved_line (js_split ldd_chrome_output ''\<newline>''))
     [''libgtk-3.so.0'', ''libx264.so''] \<and>
   snd (missingFileDependenciesWindows windows7Host ''C:/pw/chromium/chrome.exe'')
     = Inr [''vcruntime140.dll'', ''mf.dll''] \<and>
   (\<exists>names. [''vcruntime140.dll'', ''mf.dll''] = map js_toLowerCase names \<and>
      list_all2 spec_name_of_line
        (filter spec_unresolved_line (js_split printDeps_output ''\<newline>'')) names)"
proof -
  have l: "snd (missingFileDependencies linuxHost ''/opt/browser/chrome'' [''/opt/browser''])
     = Inr [''libgtk-3.so.0'', ''libx264.so'']"
    by (simp add: missingFileDependencies_def linuxHost_def linuxSpawn_def ldd_chrome_output_def
        js_split_def js_trim_def isWhiteSpace_def js_endsWith_def truthy_def)
  have w: "snd (missingFileDependenciesWindows windows7Host ''C:/pw/chromium/chrome.exe'')
     = Inr [''vcruntime140.dll'', ''mf.dll'']"
    by (simp add: missingFileDependenciesWindows_def windows7Host_def linuxHost_def
        printDeps_output_def js_split_def js_trim_def isWhiteSpace_def js_endsWith_def truthy_def
        js_toLowerCase_def lowerChar_def isUpperCase_def Let_def)
  have cl: "code (spawnAsync linuxHost ''ldd'' [''/opt/browser/chrome''] opts) = Some 0"
           "stdout (spawnAsync linuxHost ''ldd'' [''/opt/browser/chrome''] opts)
              = ldd_chrome_output"
    for opts by (simp_all add: linuxHost_def linuxSpawn_def)
  have cw: "code (spawnAsync windows7Host exe [''C:/pw/chromium/chrome.exe''] opts) = Some 0"
           "stdout (spawnAsync windows7Host exe [''C:/pw/chromium/chrome.exe''] opts)
              = printDeps_output"
    for exe opts by (simp_all add: windows7Host_def linuxHost_def)
  from prober_extraction [of linuxHost "''/opt/browser/chrome''" "[''/opt/browser'']"]
  have 1: "list_all2 spec_name_of_line
     (filter spec_unresolved_line (js_split ldd_chrome_output ''\<newline>''))
     [''libgtk-3.so.0'', ''libx264.so'']"
    unfolding cl l by auto
  from prober_extraction [of windows7Host "''C:/pw/chromium/chrome.exe''"]
  have 2: "\<exists>names. [''vcruntime140.dll'', ''mf.dll''] = map js_toLowerCase names \<and>
      list_all2 spec_name_of_line
        (filter spec_unresolved_line (js_split printDeps_output ''\<newline>'')) names"
    unfolding cw w by auto
  from l w 1 2 show ?thesis by (intro conjI)
qed

section \<open>Dependency Prober: a tool that fails\<close>

text \<open>A batch of calls none of which rejects resolves with one value per call.\<close>

lemma all_eff_map_total:
  assumes "\<And>x. \<exists>y. snd (f x) = Inr y"
  shows "\<exists>ys. snd (all_eff (map f xs)) = Inr ys \<and> list_all2 (\<lambda>x y. snd (f x) = Inr y) xs ys"
proof (induction xs)
  case Nil
  show ?case by (simp add: all_eff_def)
next
  case (Cons x xs)
  from assms obtain y where y: "snd (f x) = Inr y" by blast
  from Cons obtain ys where
    "map_result (\<lambda>r. r) (map snd (map f xs)) = Inr ys"
    "list_all2 (\<lambda>x y. snd (f x) = Inr y) xs ys" by (auto simp: all_eff_def)
  with y show ?case by (auto simp: all_eff_def)
qed

text \<open>
  Claim C3. In both variants of the Prober, when the introspection tool ends with a
  status other than 0 (or with none), the Prober resolves with the empty list and
  rejects nothing. A batch of probes over any list of candidate paths, as
  \<^verbatim>\<open>Promise.all\<close> runs it, resolves with one list per path: no probe aborts it.
\<close>

theorem prober_nonzero_exit:
  "(\<exists>opts.
      fst (missingFileDependencies h filePath extraLDPaths) = [Spawn ''ldd'' [filePath] opts] \<and>
      (code (spawnAsync h ''ldd'' [filePath] opts) \<noteq> Some 0 \<longrightarrow>
         snd (missingFileDependencies h filePath extraLDPaths) = Inr [])) \<and>
   (\<exists>exe opts.
      fst (missingFileDependenciesWindows h filePath) = [Spawn exe [filePath] opts] \<and>
      (code (spawnAsync h exe [filePath] opts) \<noteq> Some 0 \<longrightarrow>
         snd (missingFileDependenciesWindows h filePath) = Inr [])) \<and>
   (\<exists>results.
      snd (all_eff (map (\<lambda>lddPath. missingFileDependencies h lddPath extraLDPaths) lddPaths))
        = Inr results \<and>
      list_all2 (\<lambda>lddPath names.
          snd (missingFileDependencies h lddPath extraLDPaths) = Inr names) lddPaths results) \<and>
   (\<exists>results.
      snd (all_eff (map (\<lambda>lddPath. missingFileDependenciesWindows h lddPath) lddPaths))
        = Inr results \<and>
      list_all2 (\<lambda>lddPath names.
          snd (missingFileDependenciesWindows h lddPath) = Inr names) lddPaths results)"
proof (intro conjI)
  show "\<exists>opts.
      fst (missingFileDependencies h filePath extraLDPaths) = [Spawn ''ldd'' [filePath] opts] \<and>
      (code (spawnAsync h ''ldd'' [filePath] opts) \<noteq> Some 0 \<longrightarrow>
         snd (missingFileDependencies h filePath extraLDPaths) = Inr [])"
    by (simp add: missingFileDependencies_def Let_def)
  show "\<exists>exe opts.
      fst (missingFileDependenciesWindows h filePath) = [Spawn exe [filePath] opts] \<and>
      (code (spawnAsync h exe [filePath] opts) \<noteq> Some 0 \<longrightarrow>
         snd (missingFileDependenciesWindows h filePath) = Inr [])"
    by (simp add: missingFileDependenciesWindows_def Let_def)
  show "\<exists>results.
      snd (all_eff (map (\<lambda>lddPath. missingFileDependencies h lddPath extraLDPaths) lddPaths))
        = Inr results \<and>
      list_all2 (\<lambda>lddPath names.
          snd (missingFileDependencies h lddPath extraLDPaths) = Inr names) lddPaths results"
    by (rule all_eff_map_total) (rule prober_total_linux)
  show "\<exists>results.
      snd (all_eff (map (\<lambda>lddPath. missingFileDependenciesWindows h lddPath) lddPaths))
        = Inr results \<and>
      list_all2 (\<lambda>lddPath names.
          snd (missingFileDependenciesWindows h lddPath) = Inr names) lddPaths results"
    by (rule all_eff_map_total) (rule prober_total_windows)
qed

theorem prober_nonzero_exit_witness:
  "code (spawnAsync linuxHost ''ldd'' [''/opt/browser/LIB.SO'']
     \<lparr>cwd = Some ''/opt/browser'', env_LD_LIBRARY_PATH = Some ''/opt/browser'', stdio = None\<rparr>)
     = Some 1 \<and>
   missingFileDependencies linuxHost ''/opt/browser/LIB.SO'' [''/opt/browser'']
     = ([Spawn ''ldd'' [''/opt/browser/LIB.SO'']
          \<lparr>cwd = Some ''/opt/browser'', env_LD_LIBRARY_PATH = Some ''/opt/browser'',
           stdio = None\<rparr>], Inr []) \<and>
   snd (missingFileDependenciesWindows
          (windows7Host\<lparr>spawnAsync := (\<lambda>cmd args opts.
             \<lparr>stdout = ''MF.dll => not found'', code = None, error = None\<rparr>)\<rparr>)
          ''C:/pw/chromium/chrome.exe'') = Inr [] \<and>
   snd (all_eff (map (\<lambda>lddPath. missingFileDependencies linuxHost lddPath [''/opt/browser''])
          [''/opt/browser/chrome'', ''/opt/browser/LIB.SO'']))
     = Inr [[''libgtk-3.so.0'', ''libx264.so''], []]"
proof -
  let ?w = "windows7Host\<lparr>spawnAsync := (\<lambda>cmd args opts.
             \<lparr>stdout = ''MF.dll => not found'', code = None, error = None\<rparr>)\<rparr>"
  have c: "code (spawnAsync linuxHost ''ldd'' [''/opt/browser/LIB.SO''] opts) = Some 1" for opts
    by (simp add: linuxHost_def linuxSpawn_def)
  have cw: "code (spawnAsync ?w exe args opts) \<noteq> Some 0" for exe args opts
    by simp
  have f: "fst (missingFileDependencies linuxHost ''/opt/browser/LIB.SO'' [''/opt/browser''])
     = [Spawn ''ldd'' [''/opt/browser/LIB.SO'']
          \<lparr>cwd = Some ''/opt/browser'', env_LD_LIBRARY_PATH = Some ''/opt/browser'',
           stdio = None\<rparr>]"
    by (simp add: missingFileDependencies_def linuxHost_def Let_def truthy_def)
  have chrome: "snd (missingFileDependencies linuxHost ''/opt/browser/chrome'' [''/opt/browser''])
     = Inr [''libgtk-3.so.0'', ''libx264.so'']"
    by (simp add: missingFileDependencies_def linuxHost_def linuxSpawn_def ldd_chrome_output_def
        js_split_def js_trim_def isWhiteSpace_def js_endsWith_def truthy_def)
  note t = prober_nonzero_exit [of linuxHost "''/opt/browser/LIB.SO''" "[''/opt/browser'']"
      "[''/opt/browser/chrome'', ''/opt/browser/LIB.SO'']"]
  from t have l: "snd (missingFileDependencies linuxHost ''/opt/browser/LIB.SO'' [''/opt/browser''])
     = Inr []"
    using c by auto
  from prober_nonzero_exit [of ?w "''C:/pw/chromium/chrome.exe''"]
  have w: "snd (missingFileDependenciesWindows ?w ''C:/pw/chromium/chrome.exe'') = Inr []"
    using cw by blast
  from t obtain results where
    r: "snd (all_eff (map (\<lambda>lddPath. missingFileDependencies linuxHost lddPath [''/opt/browser''])
          [''/opt/browser/chrome'', ''/opt/browser/LIB.SO''])) = Inr results"
    and "list_all2 (\<lambda>lddPath names.
          snd (missingFileDependencies linuxHost lddPath [''/opt/browser'']) = Inr names)
          [''/opt/browser/chrome'', ''/opt/browser/LIB.SO''] results"
    by blast
  then have "results = [[''libgtk-3.so.0'', ''libx264.so''], []]"
    by (auto simp: list_all2_Cons1 chrome l)
  with r c f l w show ?thesis by (simp add: prod_eq_iff)
qed

section \<open>Dynamic-Load Checker: what is returned\<close>




section \<open>Windows: version floor and the fatal or warning outcome\<close>

declare decimal.simps [simp del]

lemma of_char_digitChar:
  assumes "d < 10"
  shows "(of_char (digitChar d) :: nat) = 48 + d"
proof -
  from assms have "d \<in> set [0, 1, 2, 3, 4, 5, 6, 7, 8, 9]"
    unfolding set_simps by (simp only: insert_iff empty_iff) arith
  then show ?thesis by (auto simp: digitChar_def)
qed

lemma isDigit_digitChar: "d < 10 \<Longrightarrow> isDigit (digitChar d)"
  by (simp add: isDigit_def of_char_digitChar)

lemma not_ws_digit: "isDigit c \<Longrightarrow> \<not> isWhiteSpace c"
  by (auto simp: isDigit_def isWhiteSpace_def)

lemma not_sign_digit: "isDigit c \<Longrightarrow> c \<noteq> CHR ''-'' \<and> c \<noteq> CHR ''+'' \<and> c \<noteq> CHR ''.''"
  by (auto simp: isDigit_def)

lemma decimal_digits: "\<forall>c \<in> set (decimal n). isDigit c"
  by (induction n rule: decimal.induct) (subst decimal.simps, auto simp: isDigit_digitChar)

lemma decimal_not_Nil: "decimal n \<noteq> []"
  by (subst decimal.simps) simp

lemma digitsValue_append: "digitsValue (xs @ [c]) = 10 * digitsValue xs + (int (of_char c) - 48)"
  by (simp add: digitsValue_def)

lemma digitsValue_decimal: "digitsValue (decimal n) = int n"
proof (induction n rule: decimal.induct)
  case (1 n)
  show ?case
  proof (cases "n < 10")
    case True
    then show ?thesis
      by (subst decimal.simps) (simp add: digitsValue_def of_char_digitChar)
  next
    case False
    with 1 have "digitsValue (decimal (n div 10)) = int (n div 10)" by simp
    with False show ?thesis
      by (subst decimal.simps) (simp add: digitsValue_append of_char_digitChar, arith)
  qed
qed

lemma parseInt10_decimal:
  assumes "rest = [] \<or> \<not> isDigit (hd rest)"
  shows "parseInt10 (decimal n @ rest) = Some (int n)"
proof -
  obtain c cs where d: "decimal n = c # cs" using decimal_not_Nil [of n] by (cases "decimal n") auto
  with decimal_digits [of n] have c: "isDigit c" by simp
  have tw: "takeWhile isDigit (decimal n @ rest) = decimal n"
    using assms decimal_digits [of n] by (cases rest) (auto simp: takeWhile_append2 takeWhile_eq_all_conv)
  have dw: "dropWhile isWhiteSpace (decimal n @ rest) = decimal n @ rest"
    using d c by (simp add: not_ws_digit)
  show ?thesis
    unfolding parseInt10_def dw Let_def
    using tw d c not_sign_digit [OF c] decimal_not_Nil [of n] digitsValue_decimal [of n]
    by simp
qed

text \<open>Splitting at a one-character separator: the first piece, and the piece after it.\<close>

lemma split_from_piece:
  "c \<notin> set a \<Longrightarrow> split_from [c] acc (a @ c # b) = (rev acc @ a) # split_from [c] [] b"
  by (induction a arbitrary: acc) auto

lemma sublist_single: "sublist [c] a = (c \<in> set a)"
  by (auto simp: sublist_def in_set_conv_decomp)

lemma split_from_hd:
  "c \<notin> set a \<Longrightarrow> \<exists>ps. split_from [c] acc (a @ b) = (rev acc @ a @ takeWhile (\<lambda>x. x \<noteq> c) b) # ps"
proof (induction b arbitrary: a)
  case Nil
  then show ?case by (simp add: split_from_no_match sublist_single)
next
  case (Cons x b)
  show ?case
  proof (cases "x = c")
    case True
    with Cons.prems show ?thesis using split_from_piece [of c a acc b] by simp
  next
    case False
    with Cons.prems Cons.IH [of "a @ [x]"] show ?thesis by simp
  qed
qed

text \<open>
  A release string that starts with major, a dot and minor in decimal, and goes on with
  anything but a digit, is read back as these two numbers.
\<close>

lemma release_tokens:
  assumes "os_release h = decimal major @ ''.'' @ decimal minor @ rest"
    and "rest = [] \<or> \<not> isDigit (hd rest)"
  shows "element_at (map parseInt10 (js_split (os_release h) ''.'')) 0 = Some (int major)"
    and "element_at (map parseInt10 (js_split (os_release h) ''.'')) 1 = Some (int minor)"
proof -
  have nd: "CHR ''.'' \<notin> set (decimal n)" for n
    using decimal_digits [of n] not_sign_digit by blast
  from split_from_hd [where c = "CHR ''.''" and a = "decimal minor" and acc = "[]" and b = rest]
    nd [of minor] obtain ps where
    ps: "split_from ''.'' [] (decimal minor @ rest)
           = (decimal minor @ takeWhile (\<lambda>x. x \<noteq> CHR ''.'') rest) # ps" by auto
  have sp: "js_split (os_release h) ''.''
          = decimal major # (decimal minor @ takeWhile (\<lambda>x. x \<noteq> CHR ''.'') rest) # ps"
    using split_from_piece [where c = "CHR ''.''" and a = "decimal major" and acc = "[]"
        and b = "decimal minor @ rest"] nd [of major] ps assms(1)
    by (simp add: js_split_def)
  have r: "takeWhile (\<lambda>x. x \<noteq> CHR ''.'') rest = [] \<or>
           \<not> isDigit (hd (takeWhile (\<lambda>x. x \<noteq> CHR ''.'') rest))"
    using assms(2) by (cases rest) auto
  have 0: "parseInt10 (decimal major) = Some (int major)"
    using parseInt10_decimal [of "[]" major] by simp
  have 1: "parseInt10 (decimal minor @ takeWhile (\<lambda>x. x \<noteq> CHR ''.'') rest) = Some (int minor)"
    by (rule parseInt10_decimal) (rule r)
  show "element_at (map parseInt10 (js_split (os_release h) ''.'')) 0 = Some (int major)"
    by (simp add: sp element_at_def 0)
  show "element_at (map parseInt10 (js_split (os_release h) ''.'')) 1 = Some (int minor)"
    by (simp add: sp element_at_def 1)
qed

lemma supported_version:
  assumes "os_platform h = ''win32''"
    and "os_release h = decimal major @ ''.'' @ decimal minor @ rest"
    and "rest = [] \<or> \<not> isDigit (hd rest)"
  shows "isSupportedWindowsVersion h =
           (os_arch h = ''x64'' \<and> (6 < major \<or> (major = 6 \<and> 1 < minor)))"
  using assms(1) release_tokens [OF assms(2,3)]
  by (auto simp: isSupportedWindowsVersion_def Let_def js_greater_def)

text \<open>
  Claim C5. On Windows (\<^verbatim>\<open>os.platform()\<close> is \<^verbatim>\<open>win32\<close>), with a release string that
  starts with the major and minor version, and a non-empty missing set aggregated from
  the directories: validation rejects with the message as a fatal error exactly when the
  architecture is \<^verbatim>\<open>x64\<close> and the version has major greater than 6, or major 6 and
  minor greater than 1; otherwise it resolves, and writes a warning line and the same
  message to the console. The message depends on the missing set only.
\<close>

theorem windows_fatal_iff_supported:
  assumes "os_platform h = ''win32''"
    and "os_release h = decimal major @ ''.'' @ decimal minor @ rest"
    and "rest = [] \<or> \<not> isDigit (hd rest)"
    and "aggregateWindows h windowsExeAndDllDirectories = (t, Inr missingDeps)"
    and "missingDeps \<noteq> []"
  shows "validateDependenciesWindows h windowsExeAndDllDirectories =
     (if os_arch h = ''x64'' \<and> (6 < major \<or> (major = 6 \<and> 1 < minor))
      then (t, Inl (Error (windowsMessage missingDeps)))
      else (t @ [ConsoleWarn ''WARNING: running on unsupported windows version!'',
                 ConsoleWarn (windowsMessage missingDeps)], Inr ()))"
  using assms(4,5) supported_version [OF assms(1,2,3)]
  by (simp add: validateDependenciesWindows_def bind_eff_def classifyWindows_def Let_def)

text \<open>The two example machines, Windows 7 (6.1) and Windows 8 (6.2), miss the same DLLs.\<close>

lemma windows_aggregate:
  "h = windows7Host \<or> h = windows8Host \<Longrightarrow>
   aggregateWindows h [''C:/pw/chromium''] =
     ([Spawn ''/pw/lib/utils/../../bin/PrintDeps.exe'' [''C:/pw/chromium/chrome.exe'']
         \<lparr>cwd = Some ''C:/pw/chromium'', env_LD_LIBRARY_PATH = Some ''C:/pw/chromium'',
          stdio = None\<rparr>],
      Inr [''vcruntime140.dll'', ''mf.dll''])"
  by (auto simp: aggregateWindows_def executablesOrSharedLibraries_def windows7Host_def
      windows8Host_def
      linuxHost_def isSharedLib_def checkExecutable_def filter_Boolean_def truthy_def
      js_toLowerCase_def lowerChar_def isUpperCase_def js_endsWith_def all_eff_def bind_eff_def
      missingFileDependenciesWindows_def printDeps_output_def js_split_def js_trim_def
      isWhiteSpace_def set_add_def Let_def)

theorem windows_fatal_iff_supported_witness:
  "validateDependenciesWindows windows7Host [''C:/pw/chromium''] =
     ([Spawn ''/pw/lib/utils/../../bin/PrintDeps.exe'' [''C:/pw/chromium/chrome.exe'']
         \<lparr>cwd = Some ''C:/pw/chromium'', env_LD_LIBRARY_PATH = Some ''C:/pw/chromium'',
          stdio = None\<rparr>,
       ConsoleWarn ''WARNING: running on unsupported windows version!'',
       ConsoleWarn (windowsMessage [''vcruntime140.dll'', ''mf.dll''])],
      Inr ()) \<and>
   validateDependenciesWindows windows8Host [''C:/pw/chromium''] =
     ([Spawn ''/pw/lib/utils/../../bin/PrintDeps.exe'' [''C:/pw/chromium/chrome.exe'']
         \<lparr>cwd = Some ''C:/pw/chromium'', env_LD_LIBRARY_PATH = Some ''C:/pw/chromium'',
          stdio = None\<rparr>],
      Inl (Error (windowsMessage [''vcruntime140.dll'', ''mf.dll'']))) \<and>
   os_release windows7Host = ''6.1.7601'' \<and> os_release windows8Host = ''6.2.9200''"
proof -
  have p: "os_platform windows7Host = ''win32''" "os_platform windows8Host = ''win32''"
          "os_arch windows7Host = ''x64''" "os_arch windows8Host = ''x64''"
    by (simp_all add: windows7Host_def windows8Host_def linuxHost_def)
  have r7: "os_release windows7Host = decimal 6 @ ''.'' @ decimal 1 @ ''.7601''"
    by (simp add: windows7Host_def digitChar_def decimal.simps)
  have r8: "os_release windows8Host = decimal 6 @ ''.'' @ decimal 2 @ ''.9200''"
    by (simp add: windows8Host_def windows7Host_def digitChar_def decimal.simps)
  have nd: "''.7601'' = [] \<or> \<not> isDigit (hd ''.7601'')" "''.9200'' = [] \<or> \<not> isDigit (hd ''.9200'')"
    by (simp_all add: isDigit_def)
  have ne: "[''vcruntime140.dll'', ''mf.dll''] \<noteq> []" by simp
  have 7: "validateDependenciesWindows windows7Host [''C:/pw/chromium''] =
     ([Spawn ''/pw/lib/utils/../../bin/PrintDeps.exe'' [''C:/pw/chromium/chrome.exe'']
         \<lparr>cwd = Some ''C:/pw/chromium'', env_LD_LIBRARY_PATH = Some ''C:/pw/chromium'',
          stdio = None\<rparr>,
       ConsoleWarn ''WARNING: running on unsupported windows version!'',
       ConsoleWarn (windowsMessage [''vcruntime140.dll'', ''mf.dll''])],
      Inr ())"
    using windows_fatal_iff_supported [OF p(1) r7 nd(1) windows_aggregate ne] by simp
  have 8: "validateDependenciesWindows windows8Host [''C:/pw/chromium''] =
     ([Spawn ''/pw/lib/utils/../../bin/PrintDeps.exe'' [''C:/pw/chromium/chrome.exe'']
         \<lparr>cwd = Some ''C:/pw/chromium'', env_LD_LIBRARY_PATH = Some ''C:/pw/chromium'',
          stdio = None\<rparr>],
      Inl (Error (windowsMessage [''vcruntime140.dll'', ''mf.dll''])))"
    using windows_fatal_iff_supported [OF p(2) r8 nd(2) windows_aggregate ne] p(4) by simp
  have "os_release windows7Host = ''6.1.7601''" "os_release windows8Host = ''6.2.9200''"
    by (simp_all add: windows7Host_def windows8Host_def)
  with 7 8 show ?thesis by simp
qed

section \<open>Linux: the effective library-to-package mapping\<close>

text \<open>
  Claim C8. In the effective mapping, a key of both the catalog's mapping for the host
  platform and the manual override table has the override table's value; a key of one
  of the two has that one's value; a key of neither has none.
\<close>

theorem mapping_override:
  "(k \<in> dom (catalogLib2package h) \<and> k \<in> dom MANUAL_LIBRARY_TO_PACKAGE_NAME_UBUNTU \<longrightarrow>
      libraryToPackageNameMapping h k = MANUAL_LIBRARY_TO_PACKAGE_NAME_UBUNTU k) \<and>
   (k \<notin> dom (catalogLib2package h) \<and> k \<in> dom MANUAL_LIBRARY_TO_PACKAGE_NAME_UBUNTU \<longrightarrow>
      libraryToPackageNameMapping h k = MANUAL_LIBRARY_TO_PACKAGE_NAME_UBUNTU k) \<and>
   (k \<in> dom (catalogLib2package h) \<and> k \<notin> dom MANUAL_LIBRARY_TO_PACKAGE_NAME_UBUNTU \<longrightarrow>
      libraryToPackageNameMapping h k = catalogLib2package h k) \<and>
   (k \<notin> dom (catalogLib2package h) \<and> k \<notin> dom MANUAL_LIBRARY_TO_PACKAGE_NAME_UBUNTU \<longrightarrow>
      libraryToPackageNameMapping h k = None)"
  by (auto simp: libraryToPackageNameMapping_def map_add_def split: option.splits)

theorem mapping_override_witness:
  "catalogLib2package linuxHost ''libx264.so'' = Some ''libx264-155'' \<and>
   MANUAL_LIBRARY_TO_PACKAGE_NAME_UBUNTU ''libx264.so'' = Some ''gstreamer1.0-libav'' \<and>
   libraryToPackageNameMapping linuxHost ''libx264.so'' = Some ''gstreamer1.0-libav'' \<and>
   MANUAL_LIBRARY_TO_PACKAGE_NAME_UBUNTU ''libgtk-3.so.0'' = None \<and>
   libraryToPackageNameMapping linuxHost ''libgtk-3.so.0'' = Some ''libgtk-3-0'' \<and>
   catalogLib2package (linuxHost\<lparr>hostPlatform := ''fedora''\<rparr>) ''libx264.so'' = None \<and>
   libraryToPackageNameMapping (linuxHost\<lparr>hostPlatform := ''fedora''\<rparr>) ''libx264.so''
     = Some ''gstreamer1.0-libav''"
proof -
  let ?f = "linuxHost\<lparr>hostPlatform := ''fedora''\<rparr>"
  have c: "catalogLib2package linuxHost ''libx264.so'' = Some ''libx264-155''"
          "catalogLib2package linuxHost ''libgtk-3.so.0'' = Some ''libgtk-3-0''"
          "catalogLib2package ?f ''libx264.so'' = None"
    by (simp_all add: catalogLib2package_def linuxHost_def)
  have m: "MANUAL_LIBRARY_TO_PACKAGE_NAME_UBUNTU ''libx264.so'' = Some ''gstreamer1.0-libav''"
          "MANUAL_LIBRARY_TO_PACKAGE_NAME_UBUNTU ''libgtk-3.so.0'' = None"
    by (simp_all add: MANUAL_LIBRARY_TO_PACKAGE_NAME_UBUNTU_def)
  from mapping_override [of "''libx264.so''" linuxHost] c m
  have 1: "libraryToPackageNameMapping linuxHost ''libx264.so'' = Some ''gstreamer1.0-libav''"
    by (simp add: dom_def)
  from mapping_override [of "''libgtk-3.so.0''" linuxHost] c m
  have 2: "libraryToPackageNameMapping linuxHost ''libgtk-3.so.0'' = Some ''libgtk-3-0''"
    by (simp add: dom_def)
  from mapping_override [of "''libx264.so''" ?f] c m
  have 3: "libraryToPackageNameMapping ?f ''libx264.so'' = Some ''gstreamer1.0-libav''"
    by (simp add: dom_def)
  from c m 1 2 3 show ?thesis by simp
qed

section \<open>Installer, Windows: only chromium does anything\<close>

text \<open>
  Claim C10. Without \<^verbatim>\<open>chromium\<close> among the requested groups, and for either value of
  the dry-run flag, the Windows installer resolves without any event: nothing is printed
  and nothing is spawned. With \<^verbatim>\<open>chromium\<close> it prints the PowerShell command line of
  the media-pack script on a dry run, and spawns that command otherwise.
\<close>

theorem installer_windows_noop:
  "(chromium \<notin> targets \<longrightarrow> installDependenciesWindows h targets dryRun = ([], Inr ())) \<and>
   (chromium \<in> targets \<longrightarrow>
      fst (installDependenciesWindows h targets dryRun) =
        (let args = [''-ExecutionPolicy'', ''Bypass'', ''-File'',
                     path_join h [BIN_DIRECTORY h, ''install_media_pack.ps1'']]
         in if dryRun
            then [ConsoleLog (''powershell.exe '' @ js_join (quoteProcessArgs args) '' '')]
            else [Spawn ''powershell.exe'' args
                    \<lparr>cwd = Some (BIN_DIRECTORY h), env_LD_LIBRARY_PATH = None,
                     stdio = Some ''inherit''\<rparr>]))"
  by (simp add: installDependenciesWindows_def Let_def)

theorem installer_windows_noop_witness:
  "chromium \<notin> {firefox, webkit, tools} \<and>
   installDependenciesWindows windows8Host {firefox, webkit, tools} True = ([], Inr ()) \<and>
   installDependenciesWindows windows8Host {firefox, webkit, tools} False = ([], Inr ()) \<and>
   chromium \<in> {chromium, tools} \<and>
   fst (installDependenciesWindows windows8Host {chromium, tools} True) =
     [ConsoleLog (''powershell.exe -ExecutionPolicy Bypass -File '' @
                  ''/pw/lib/utils/../../bin/install_media_pack.ps1'')]"
proof -
  have a: "chromium \<notin> {firefox, webkit, tools}" and b: "chromium \<in> {chromium, tools}"
    by simp_all
  from installer_windows_noop [of "{firefox, webkit, tools}" windows8Host] a
  have 1: "installDependenciesWindows windows8Host {firefox, webkit, tools} dryRun = ([], Inr ())"
    for dryRun by blast
  from installer_windows_noop [of "{chromium, tools}" windows8Host True] b
  have 2: "fst (installDependenciesWindows windows8Host {chromium, tools} True) =
     [ConsoleLog (''powershell.exe -ExecutionPolicy Bypass -File '' @
                  ''/pw/lib/utils/../../bin/install_media_pack.ps1'')]"
    by (simp add: BIN_DIRECTORY_def quoteProcessArgs_def windows8Host_def windows7Host_def
        linuxHost_def)
  from a b 1 2 show ?thesis by simp
qed

section \<open>Binary Candidate Scanner: what is returned\<close>

lemma map_result_Inr_D:
  "map_result f xs = Inr ys \<Longrightarrow> list_all2 (\<lambda>x y. f x = Inr y) xs ys"
  by (induction xs arbitrary: ys) (auto split: sum.splits)

lemma map_result_Inl: "\<exists>x \<in> set xs. isl (f x) \<Longrightarrow> isl (map_result f xs)"
proof (induction xs)
  case Nil
  then show ?case by simp
next
  case (Cons x xs)
  show ?case
  proof (cases "f x")
    case (Inl e)
    then show ?thesis by simp
  next
    case (Inr y)
    with Cons.prems have "\<exists>x \<in> set xs. isl (f x)" by auto
    from Cons.IH [OF this] Inr show ?thesis by (auto simp: isl_def)
  qed
qed

lemma map_result_cases:
  "(\<exists>x \<in> set xs. isl (f x)) \<or> map_result f xs = Inr (map (\<lambda>x. projr (f x)) xs)"
proof (induction xs)
  case Nil
  then show ?case by simp
next
  case (Cons x xs)
  then show ?case by (cases "f x") auto
qed

lemma filter_by_stats:
  "list_all2 (\<lambda>x y. f x = Inr y) xs ys \<Longrightarrow>
   map fst (filter snd (zip xs ys)) = filter (\<lambda>x. f x = Inr True) xs"
  by (induction xs ys rule: list_all2_induct) auto

lemma filter_Boolean_candidates:
  "filter_Boolean (map (\<lambda>p. if P p then Some p else if Q p then Some p else None) ps)
     = filter (\<lambda>p. (P p \<or> Q p) \<and> p \<noteq> []) ps"
  by (induction ps) (auto simp: filter_Boolean_def truthy_def)

lemma isSharedLib_spec: "isSharedLib h name = spec_shared_library_name (os_platform h) name"
  by (auto simp: isSharedLib_def spec_shared_library_name_def js_endsWith_suffix
      js_includes_sublist)

text \<open>
  Claim C7, amended. The Scanner decides on the lower-cased file name. Provided that
  \<^verbatim>\<open>path.resolve\<close> never returns the empty string: when the directory can be read and
  every entry can be stat-ed, the Scanner returns exactly the resolved paths, in directory
  order, of the entries that are regular files and whose lower-cased base name is a
  shared library by the naming convention of the platform, or that are executable; when
  the stat of any entry fails, or the directory cannot be read, the scan fails.
\<close>

theorem scanner_candidates:
  assumes "\<forall>d f. path_resolve h d f \<noteq> []"
  shows "(fs_readdir h directoryPath = Inr files \<and>
          (\<forall>f \<in> set files. \<not> isl (fs_stat_isFile h (path_resolve h directoryPath f))) \<longrightarrow>
            executablesOrSharedLibraries h directoryPath =
              Inr (filter
                (\<lambda>p. fs_stat_isFile h p = Inr True \<and>
                     (spec_shared_library_name (os_platform h)
                        (js_toLowerCase (path_basename h p)) \<or>
                      fs_access_X_OK h p))
                (map (path_resolve h directoryPath) files))) \<and>
         (fs_readdir h directoryPath = Inr files \<and>
          (\<exists>f \<in> set files. isl (fs_stat_isFile h (path_resolve h directoryPath f))) \<longrightarrow>
            isl (executablesOrSharedLibraries h directoryPath)) \<and>
         (isl (fs_readdir h directoryPath) \<longrightarrow> isl (executablesOrSharedLibraries h directoryPath))"
proof (intro conjI impI)
  let ?all = "map (path_resolve h directoryPath) files"
  assume a: "fs_readdir h directoryPath = Inr files \<and>
          (\<forall>f \<in> set files. \<not> isl (fs_stat_isFile h (path_resolve h directoryPath f)))"
  then have "\<not> (\<exists>p \<in> set ?all. isl (fs_stat_isFile h p))" by auto
  with map_result_cases [of ?all "fs_stat_isFile h"]
  have st: "map_result (fs_stat_isFile h) ?all = Inr (map (\<lambda>p. projr (fs_stat_isFile h p)) ?all)"
    by blast
  then have "list_all2 (\<lambda>p y. fs_stat_isFile h p = Inr y) ?all
               (map (\<lambda>p. projr (fs_stat_isFile h p)) ?all)"
    by (rule map_result_Inr_D)
  from filter_by_stats [OF this]
  have fp: "map fst (filter snd (zip ?all (map (\<lambda>p. projr (fs_stat_isFile h p)) ?all)))
              = filter (\<lambda>p. fs_stat_isFile h p = Inr True) ?all" .
  have ne: "p \<in> set ?all \<Longrightarrow> p \<noteq> []" for p using assms by auto
  show "executablesOrSharedLibraries h directoryPath =
              Inr (filter
                (\<lambda>p. fs_stat_isFile h p = Inr True \<and>
                     (spec_shared_library_name (os_platform h)
                        (js_toLowerCase (path_basename h p)) \<or>
                      fs_access_X_OK h p))
                ?all)"
    using a
    apply (simp only: executablesOrSharedLibraries_def sum.case Let_def st fp
        filter_Boolean_candidates isSharedLib_spec checkExecutable_def)
    apply (simp only: filter_filter sum.inject)
    apply (rule filter_cong [OF refl])
    using ne apply auto
    done
next
  assume "fs_readdir h directoryPath = Inr files \<and>
          (\<exists>f \<in> set files. isl (fs_stat_isFile h (path_resolve h directoryPath f)))"
  then have r: "fs_readdir h directoryPath = Inr files"
    and "\<exists>p \<in> set (map (path_resolve h directoryPath) files). isl (fs_stat_isFile h p)" by auto
  from map_result_Inl [OF this(2)] obtain e where
    "map_result (fs_stat_isFile h) (map (path_resolve h directoryPath) files) = Inl e"
    by (auto simp: isl_def)
  with r show "isl (executablesOrSharedLibraries h directoryPath)"
    by (simp add: executablesOrSharedLibraries_def)
next
  assume "isl (fs_readdir h directoryPath)"
  then show "isl (executablesOrSharedLibraries h directoryPath)"
    by (auto simp: executablesOrSharedLibraries_def isl_def)
qed


lemma scan_browser_dir:
  "executablesOrSharedLibraries linuxHost ''/opt/browser''
     = Inr [''/opt/browser/chrome'', ''/opt/browser/LIB.SO'']"
  by (simp add: executablesOrSharedLibraries_def linuxHost_def isSharedLib_def
      checkExecutable_def filter_Boolean_def truthy_def js_toLowerCase_def lowerChar_def
      isUpperCase_def js_endsWith_def Let_def)

theorem scanner_candidates_witness:
  "(\<forall>d f. path_resolve linuxHost d f \<noteq> []) \<and>
   fs_readdir linuxHost ''/opt/browser'' = Inr [''chrome'', ''LIB.SO'', ''readme.txt'', ''locales''] \<and>
   executablesOrSharedLibraries linuxHost ''/opt/browser''
     = Inr [''/opt/browser/chrome'', ''/opt/browser/LIB.SO''] \<and>
   fs_readdir brokenDirHost ''/opt/broken'' = Inr [''chrome'', ''gone''] \<and>
   isl (fs_stat_isFile brokenDirHost (path_resolve brokenDirHost ''/opt/broken'' ''gone'')) \<and>
   isl (executablesOrSharedLibraries brokenDirHost ''/opt/broken'')"
proof -
  have r: "\<forall>d f. path_resolve linuxHost d f \<noteq> []" "\<forall>d f. path_resolve brokenDirHost d f \<noteq> []"
    by (simp_all add: linuxHost_def brokenDirHost_def)
  have d: "fs_readdir linuxHost ''/opt/browser''
             = Inr [''chrome'', ''LIB.SO'', ''readme.txt'', ''locales'']"
    by (simp add: linuxHost_def)
  have s: "\<forall>f \<in> set [''chrome'', ''LIB.SO'', ''readme.txt'', ''locales''].
             \<not> isl (fs_stat_isFile linuxHost (path_resolve linuxHost ''/opt/browser'' f))"
    by (simp add: linuxHost_def)
  have b: "fs_readdir brokenDirHost ''/opt/broken'' = Inr [''chrome'', ''gone'']"
    by (simp add: brokenDirHost_def)
  have g: "isl (fs_stat_isFile brokenDirHost (path_resolve brokenDirHost ''/opt/broken'' ''gone''))"
    by (simp add: brokenDirHost_def linuxHost_def)
  from scanner_candidates [OF r(1), of "''/opt/browser''"
      "[''chrome'', ''LIB.SO'', ''readme.txt'', ''locales'']"] d s
  have 1: "executablesOrSharedLibraries linuxHost ''/opt/browser'' =
      Inr (filter
        (\<lambda>p. fs_stat_isFile linuxHost p = Inr True \<and>
             (spec_shared_library_name (os_platform linuxHost)
                (js_toLowerCase (path_basename linuxHost p)) \<or>
              fs_access_X_OK linuxHost p))
        (map (path_resolve linuxHost ''/opt/browser'')
           [''chrome'', ''LIB.SO'', ''readme.txt'', ''locales'']))"
    by blast
  have 2: "executablesOrSharedLibraries linuxHost ''/opt/browser''
     = Inr [''/opt/browser/chrome'', ''/opt/browser/LIB.SO'']"
    unfolding 1
    by (simp add: linuxHost_def spec_shared_library_name_def js_toLowerCase_def lowerChar_def
        isUpperCase_def suffix_to_prefix sublist_code)
  from scanner_candidates [OF r(2), of "''/opt/broken''" "[''chrome'', ''gone'']"] b g
  have 3: "isl (executablesOrSharedLibraries brokenDirHost ''/opt/broken'')"
    by auto
  from r(1) d 2 b g 3 show ?thesis by (intro conjI)
qed

text \<open>
  Claim C7 as stated fails: on Linux the Scanner returns \<^verbatim>\<open>LIB.SO\<close>, a regular file that
  is not executable and whose name neither ends with \<^verbatim>\<open>.so\<close> nor contains \<^verbatim>\<open>.so.\<close>.
\<close>

theorem scanner_case_counterexample:
  "os_platform linuxHost = ''linux'' \<and>
   executablesOrSharedLibraries linuxHost ''/opt/browser''
     = Inr [''/opt/browser/chrome'', ''/opt/browser/LIB.SO''] \<and>
   path_basename linuxHost ''/opt/browser/LIB.SO'' = ''LIB.SO'' \<and>
   \<not> spec_shared_library_name ''linux'' ''LIB.SO'' \<and>
   \<not> fs_access_X_OK linuxHost ''/opt/browser/LIB.SO''"
  by (simp add: scan_browser_dir)
     (simp add: linuxHost_def spec_shared_library_name_def suffix_to_prefix sublist_code)

section \<open>Linux: classification and the error message\<close>



lemma foldl_set_add:
  "distinct pk \<Longrightarrow> distinct (foldl set_add pk ys) \<and> set (foldl set_add pk ys) = set pk \<union> set ys"
  by (induction ys arbitrary: pk) (auto simp: set_add_def)









section \<open>Aggregator: the set handed to the classifier\<close>

lemma dlopen_total: "\<exists>names. snd (missingDLOPENLibraries h libraries) = Inr names"
  by (simp add: missingDLOPENLibraries_def Let_def)

lemma aggregate_unfold:
  assumes "map_result (executablesOrSharedLibraries h) dirs = Inr found"
    and "snd (all_eff (map (\<lambda>lddPath. missingFileDependencies h lddPath dirs) (concat found)))
           = Inr probed"
    and "snd (missingDLOPENLibraries h dl) = Inr dlopenMissing"
  shows "snd (aggregateLinux h dirs dl)
           = Inr (foldl set_add (foldl set_add [] (concat probed)) dlopenMissing)"
proof -
  obtain t1 where 1: "all_eff (map (\<lambda>lddPath. missingFileDependencies h lddPath dirs) (concat found))
      = (t1, Inr probed)"
    using assms(2) by (metis prod.collapse)
  obtain t2 where 2: "missingDLOPENLibraries h dl = (t2, Inr dlopenMissing)"
    using assms(3) by (metis prod.collapse)
  show ?thesis
    by (simp add: aggregateLinux_def assms(1) Let_def bind_eff_def 1 2)
qed

text \<open>
  Claim C1, amended. When the directories can be scanned, the set handed to the
  classifier has no duplicates and holds exactly the names that some probe reported
  missing together with the names that the Dynamic-Load Checker returned as missing. A
  name that the checker finds in the linker cache is not added by the checker, and
  nothing removes it: it is in the set whenever a probe reported it.
\<close>

theorem aggregate_union:
  "map_result (executablesOrSharedLibraries h) linuxLddDirectories = Inr found \<longrightarrow>
   (\<exists>probed dlopenMissing aggregated.
      snd (all_eff (map (\<lambda>lddPath. missingFileDependencies h lddPath linuxLddDirectories)
             (concat found))) = Inr probed \<and>
      snd (missingDLOPENLibraries h dlOpenLibraries) = Inr dlopenMissing \<and>
      snd (aggregateLinux h linuxLddDirectories dlOpenLibraries) = Inr aggregated \<and>
      distinct aggregated \<and>
      set aggregated = set (concat probed) \<union> set dlopenMissing)"
proof
  assume f: "map_result (executablesOrSharedLibraries h) linuxLddDirectories = Inr found"
  obtain probed where
    p: "snd (all_eff (map (\<lambda>lddPath. missingFileDependencies h lddPath linuxLddDirectories)
             (concat found))) = Inr probed"
    using all_eff_map_total [of "\<lambda>lddPath. missingFileDependencies h lddPath linuxLddDirectories"
        "concat found"] prober_total_linux by blast
  obtain dlopenMissing where
    d: "snd (missingDLOPENLibraries h dlOpenLibraries) = Inr dlopenMissing"
    using dlopen_total by blast
  let ?a = "foldl set_add (foldl set_add [] (concat probed)) dlopenMissing"
  have "distinct (foldl set_add [] (concat probed))"
    and "set (foldl set_add [] (concat probed)) = set (concat probed)"
    using foldl_set_add [of "[]" "concat probed"] by simp_all
  with foldl_set_add [of "foldl set_add [] (concat probed)" dlopenMissing]
  have "distinct ?a" "set ?a = set (concat probed) \<union> set dlopenMissing" by simp_all
  with p d aggregate_unfold [OF f p d] show "\<exists>probed dlopenMissing aggregated.
      snd (all_eff (map (\<lambda>lddPath. missingFileDependencies h lddPath linuxLddDirectories)
             (concat found))) = Inr probed \<and>
      snd (missingDLOPENLibraries h dlOpenLibraries) = Inr dlopenMissing \<and>
      snd (aggregateLinux h linuxLddDirectories dlOpenLibraries) = Inr aggregated \<and>
      distinct aggregated \<and>
      set aggregated = set (concat probed) \<union> set dlopenMissing"
    by blast
qed

text \<open>The example Linux machine, step by step.\<close>

lemma linux_probe_chrome:
  "snd (missingFileDependencies linuxHost ''/opt/browser/chrome'' [''/opt/browser''])
     = Inr [''libgtk-3.so.0'', ''libx264.so'']"
  by (simp add: missingFileDependencies_def linuxHost_def linuxSpawn_def ldd_chrome_output_def
      js_split_def js_trim_def isWhiteSpace_def js_endsWith_def truthy_def)

lemma linux_probe_other:
  "snd (missingFileDependencies linuxHost ''/opt/browser/LIB.SO'' [''/opt/browser'']) = Inr []"
  by (simp add: missingFileDependencies_def linuxHost_def linuxSpawn_def Let_def)

lemma linux_probe_batch:
  "snd (all_eff (map (\<lambda>lddPath. missingFileDependencies linuxHost lddPath [''/opt/browser''])
          [''/opt/browser/chrome'', ''/opt/browser/LIB.SO'']))
     = Inr [[''libgtk-3.so.0'', ''libx264.so''], []]"
  by (simp add: all_eff_def linux_probe_chrome linux_probe_other)

lemma linux_dlopen_x264:
  "snd (missingDLOPENLibraries linuxHost [''libx264.so'']) = Inr []"
  by (simp add: missingDLOPENLibraries_def linuxHost_def linuxSpawn_def Let_def
      js_toLowerCase_def lowerChar_def isUpperCase_def)

lemma linux_aggregate:
  "snd (aggregateLinux linuxHost [''/opt/browser''] [''libx264.so''])
     = Inr [''libgtk-3.so.0'', ''libx264.so'']"
proof -
  have f: "map_result (executablesOrSharedLibraries linuxHost) [''/opt/browser'']
          = Inr [[''/opt/browser/chrome'', ''/opt/browser/LIB.SO'']]"
    by (simp add: scan_browser_dir)
  have p: "snd (all_eff (map (\<lambda>lddPath. missingFileDependencies linuxHost lddPath [''/opt/browser''])
          (concat [[''/opt/browser/chrome'', ''/opt/browser/LIB.SO'']])))
     = Inr [[''libgtk-3.so.0'', ''libx264.so''], []]"
    using linux_probe_batch by simp
  from aggregate_unfold [OF f p linux_dlopen_x264] show ?thesis by (simp add: set_add_def)
qed

theorem aggregate_union_witness:
  "map_result (executablesOrSharedLibraries linuxHost) [''/opt/browser'']
     = Inr [[''/opt/browser/chrome'', ''/opt/browser/LIB.SO'']] \<and>
   snd (aggregateLinux linuxHost [''/opt/browser''] [''libx264.so''])
     = Inr [''libgtk-3.so.0'', ''libx264.so''] \<and>
   distinct [''libgtk-3.so.0'', ''libx264.so''] \<and>
   set [''libgtk-3.so.0'', ''libx264.so'']
     = set (concat [[''libgtk-3.so.0'', ''libx264.so''], []]) \<union> set []"
proof -
  have f: "map_result (executablesOrSharedLibraries linuxHost) [''/opt/browser'']
          = Inr [[''/opt/browser/chrome'', ''/opt/browser/LIB.SO'']]"
    by (simp add: scan_browser_dir)
  from aggregate_union [of linuxHost "[''/opt/browser'']"
      "[[''/opt/browser/chrome'', ''/opt/browser/LIB.SO'']]" "[''libx264.so'']"] f
  obtain probed dlopenMissing aggregated where
    "snd (all_eff (map (\<lambda>lddPath. missingFileDependencies linuxHost lddPath [''/opt/browser''])
        (concat [[''/opt/browser/chrome'', ''/opt/browser/LIB.SO'']]))) = Inr probed"
    "snd (missingDLOPENLibraries linuxHost [''libx264.so'']) = Inr dlopenMissing"
    "snd (aggregateLinux linuxHost [''/opt/browser''] [''libx264.so'']) = Inr aggregated"
    "distinct aggregated" "set aggregated = set (concat probed) \<union> set dlopenMissing"
    by blast
  then have "probed = [[''libgtk-3.so.0'', ''libx264.so''], []]" "dlopenMissing = []"
    "aggregated = [''libgtk-3.so.0'', ''libx264.so'']"
    "distinct aggregated" "set aggregated = set (concat probed) \<union> set dlopenMissing"
    using linux_probe_batch linux_dlopen_x264 linux_aggregate by simp_all
  with f linux_aggregate show ?thesis by simp
qed

text \<open>
  Claim C1 as stated fails: \<^verbatim>\<open>ldd\<close> reports \<^verbatim>\<open>libx264.so\<close> missing for \<^verbatim>\<open>chrome\<close>,
  the checker finds \<^verbatim>\<open>libx264.so\<close> in the output of \<^verbatim>\<open>ldconfig -p\<close> and returns
  nothing as missing, and the aggregated set still contains \<^verbatim>\<open>libx264.so\<close>.
\<close>

theorem aggregate_keeps_cached_name_counterexample:
  "snd (missingFileDependencies linuxHost ''/opt/browser/chrome'' [''/opt/browser''])
     = Inr [''libgtk-3.so.0'', ''libx264.so''] \<and>
   js_includes
     (js_toLowerCase (stdout (spawnAsync linuxHost ''/sbin/ldconfig'' [''-p'']
        \<lparr>cwd = None, env_LD_LIBRARY_PATH = None, stdio = None\<rparr>)))
     (js_toLowerCase ''libx264.so'') \<and>
   missingDLOPENLibraries linuxHost [''libx264.so''] =
     ([Spawn ''/sbin/ldconfig'' [''-p'']
         \<lparr>cwd = None, env_LD_LIBRARY_PATH = None, stdio = None\<rparr>], Inr []) \<and>
   snd (aggregateLinux linuxHost [''/opt/browser''] [''libx264.so''])
     = Inr [''libgtk-3.so.0'', ''libx264.so'']"
proof -
  have "js_includes
     (js_toLowerCase (stdout (spawnAsync linuxHost ''/sbin/ldconfig'' [''-p'']
        \<lparr>cwd = None, env_LD_LIBRARY_PATH = None, stdio = None\<rparr>)))
     (js_toLowerCase ''libx264.so'')"
    by (simp add: linuxHost_def linuxSpawn_def js_toLowerCase_def lowerChar_def isUpperCase_def)
  moreover have "missingDLOPENLibraries linuxHost [''libx264.so''] =
     ([Spawn ''/sbin/ldconfig'' [''-p'']
         \<lparr>cwd = None, env_LD_LIBRARY_PATH = None, stdio = None\<rparr>], Inr [])"
    by (simp add: missingDLOPENLibraries_def linuxHost_def linuxSpawn_def Let_def
      js_toLowerCase_def lowerChar_def isUpperCase_def)
  ultimately show ?thesis using linux_probe_chrome linux_aggregate by (intro conjI)
qed

section \<open>Linux: what classification does to the set\<close>



end
